theory Spec2Isabelle
  imports Main
begin

section \<open>Values received from the peer\<close>

text \<open>
  Every inbound frame goes through \<^verbatim>\<open>JSON.parse(data.toString())\<close>. The value that
  comes out is a JSON value. A number is carried by the text that JavaScript's
  number-to-string conversion gives it (all the program could observe of it; zero reads
  \<open>''0''\<close>). An object is the association list of its own properties, read with
  \<open>map_of\<close>. A property that is missing reads as JavaScript's \<^verbatim>\<open>undefined\<close>, which is
  \<open>None\<close> of \<open>json option\<close>.
\<close>

datatype json =
    JNull
  | JBool bool
  | JNum string
  | JStr string
  | JArr "json list"
  | JObj "(string \<times> json) list"

text \<open>What the program can throw: the two built-in errors that the accesses of the
  source raise, an \<^verbatim>\<open>Error\<close> built with a message, and whatever a listener throws.\<close>

datatype js_error =
    SyntaxError
  | TypeError
  | Error string
  | Raised nat

text \<open>A frame is its text; all the program does with the text is to parse it, so a frame
  is modelled by what \<^verbatim>\<open>JSON.parse\<close> makes of it: a value, or a \<^verbatim>\<open>SyntaxError\<close>.\<close>

datatype frame = Not_JSON | Parsed json

fun JSON_parse :: "frame \<Rightarrow> js_error + json" where
  "JSON_parse Not_JSON = Inl SyntaxError"
| "JSON_parse (Parsed v) = Inr v"

text \<open>\<^verbatim>\<open>v.name\<close> for one of the names the source reads (\<^verbatim>\<open>post_type\<close>, \<^verbatim>\<open>echo\<close>,
  \<^verbatim>\<open>status\<close>, ...; none of them is on a built-in prototype): a \<^verbatim>\<open>TypeError\<close> on
  \<^verbatim>\<open>null\<close>, the own property of an object, \<^verbatim>\<open>undefined\<close> on anything else.\<close>

fun get_property :: "json \<Rightarrow> string \<Rightarrow> js_error + json option" where
  "get_property JNull name = Inl TypeError"
| "get_property (JObj props) name = Inr (map_of props name)"
| "get_property v name = Inr None"

text \<open>\<^verbatim>\<open>name in v\<close>: a \<^verbatim>\<open>TypeError\<close> unless \<^verbatim>\<open>v\<close> is an object or an array.\<close>

fun has_property :: "string \<Rightarrow> json \<Rightarrow> js_error + bool" where
  "has_property name (JObj props) = Inr (map_of props name \<noteq> None)"
| "has_property name (JArr xs) = Inr False"
| "has_property name v = Inl TypeError"

text \<open>JavaScript's conversion of a value to a string, as a template literal and the
  \<^verbatim>\<open>Error\<close> constructor apply it. An array joins its elements with commas, \<^verbatim>\<open>null\<close>
  elements reading empty. An object reads \<open>''[object Object]''\<close>, unless it has an own
  property \<^verbatim>\<open>toString\<close>: that one, parsed from JSON, is no function, and the conversion
  ends in a \<^verbatim>\<open>TypeError\<close>.\<close>

fun to_string :: "json \<Rightarrow> js_error + string"
  and join :: "json list \<Rightarrow> js_error + string" where
  "to_string JNull = Inr ''null''"
| "to_string (JBool b) = Inr (if b then ''true'' else ''false'')"
| "to_string (JNum text) = Inr text"
| "to_string (JStr text) = Inr text"
| "to_string (JArr xs) = join xs"
| "to_string (JObj props) =
     (if map_of props ''toString'' \<noteq> None then Inl TypeError else Inr ''[object Object]'')"
| "join [] = Inr ''''"
| "join (x # xs) =
     (case (if x = JNull then Inr '''' else to_string x) of
        Inl e \<Rightarrow> Inl e
      | Inr s \<Rightarrow>
          (if xs = [] then Inr s
           else (case join xs of Inl e \<Rightarrow> Inl e | Inr t \<Rightarrow> Inr (s @ '','' @ t))))"

text \<open>The same conversion on a value that may be \<^verbatim>\<open>undefined\<close>.\<close>

fun to_string_opt :: "json option \<Rightarrow> js_error + string" where
  "to_string_opt None = Inr ''undefined''"
| "to_string_opt (Some v) = to_string v"

text \<open>Truthiness, for \<^verbatim>\<open>response.message || 'API call failed'\<close>: \<^verbatim>\<open>undefined\<close>,
  \<^verbatim>\<open>null\<close>, \<^verbatim>\<open>false\<close>, zero and the empty string are falsy.\<close>

fun truthy :: "json option \<Rightarrow> bool" where
  "truthy None = False"
| "truthy (Some JNull) = False"
| "truthy (Some (JBool b)) = b"
| "truthy (Some (JNum text)) = (text \<noteq> ''0'')"
| "truthy (Some (JStr text)) = (text \<noteq> '''')"
| "truthy (Some v) = True"

section \<open>The event's classification\<close>

text \<open>\<^verbatim>\<open>getEventDetail\<close>: four tests in a fixed order, the first field found is returned,
  the empty string when there is none.\<close>

definition getEventDetail :: "json \<Rightarrow> js_error + json option" where
  "getEventDetail event =
     (case has_property ''message_type'' event of
        Inl e \<Rightarrow> Inl e
      | Inr True \<Rightarrow> get_property event ''message_type''
      | Inr False \<Rightarrow>
     (case has_property ''request_type'' event of
        Inl e \<Rightarrow> Inl e
      | Inr True \<Rightarrow> get_property event ''request_type''
      | Inr False \<Rightarrow>
     (case has_property ''notice_type'' event of
        Inl e \<Rightarrow> Inl e
      | Inr True \<Rightarrow> get_property event ''notice_type''
      | Inr False \<Rightarrow>
     (case has_property ''meta_event_type'' event of
        Inl e \<Rightarrow> Inl e
      | Inr True \<Rightarrow> get_property event ''meta_event_type''
      | Inr False \<Rightarrow> Inr (Some (JStr ''''))))))"

text \<open>The key of the second group of listeners, the template literal
  \<^verbatim>\<open>`${event.post_type}.${this.getEventDetail(event)}`\<close>.\<close>

definition event_type :: "json \<Rightarrow> js_error + string" where
  "event_type event =
     (case get_property event ''post_type'' of
        Inl e \<Rightarrow> Inl e
      | Inr post_type \<Rightarrow>
     (case to_string_opt post_type of
        Inl e \<Rightarrow> Inl e
      | Inr p \<Rightarrow>
     (case getEventDetail event of
        Inl e \<Rightarrow> Inl e
      | Inr detail \<Rightarrow>
     (case to_string_opt detail of
        Inl e \<Rightarrow> Inl e
      | Inr d \<Rightarrow> Inr (p @ ''.'' @ d)))))"

section \<open>The listener registry\<close>

text \<open>A listener is a function object; \<^verbatim>\<open>indexOf\<close> compares listeners by reference, so a
  listener is modelled by its reference. What a call of it does to the server is not in
  the source: the model records that it was called and takes from a \<open>behaviour\<close> whether
  the call returns (\<open>None\<close>) or throws. Listeners are taken not to call back into the
  server while a message is dispatched.\<close>

type_synonym callback = nat

type_synonym behaviour = "callback \<Rightarrow> json \<Rightarrow> js_error option"

text \<open>\<^verbatim>\<open>this.listeners\<close>, a \<^verbatim>\<open>Map\<close> from keys to arrays of listeners.\<close>

type_synonym registry = "string \<rightharpoonup> callback list"

text \<open>The two ways to call \<^verbatim>\<open>on\<close>: with a type and a listener, or with a listener alone.\<close>

datatype on_args = With_type string callback | Listener_only callback

definition on :: "on_args \<Rightarrow> registry \<Rightarrow> registry" where
  "on args reg =
     (let key = (case args of With_type t l \<Rightarrow> t | Listener_only l \<Rightarrow> ''*'');
          callback = (case args of With_type t l \<Rightarrow> l | Listener_only l \<Rightarrow> l);
          reg1 = (if reg key = None then reg(key \<mapsto> []) else reg)
      in (case reg1 key of
            None \<Rightarrow> reg1
          | Some ls \<Rightarrow> reg1(key \<mapsto> ls @ [callback])))"

text \<open>\<^verbatim>\<open>off\<close> visits every entry of the map: where \<^verbatim>\<open>indexOf\<close> finds the listener,
  \<^verbatim>\<open>splice(index, 1)\<close> takes that one element out (\<open>remove1\<close>: the first occurrence), and
  an entry whose array is empty after that is deleted.\<close>

definition off :: "callback \<Rightarrow> registry \<Rightarrow> registry" where
  "off listener reg =
     (\<lambda>key. case reg key of
        None \<Rightarrow> None
      | Some ls \<Rightarrow>
          (if listener \<in> set ls then
             (let ls' = remove1 listener ls in if ls' = [] then None else Some ls')
           else Some ls))"

section \<open>The server\<close>

record 'p request =
  action :: string
  params :: 'p
  echo :: string

text \<open>The promise that \<^verbatim>\<open>callApi\<close> returns.\<close>

datatype promise = Pending | Resolved "json option" | Rejected js_error

text \<open>A socket of \<^verbatim>\<open>wss.clients\<close>. The listeners of its \<^verbatim>\<open>message\<close> event are the
  dispatching listener that \<^verbatim>\<open>init\<close> attaches when it accepts the connection
  (\<open>dispatching\<close>; a connection it closes instead gets none), followed by the handlers
  that the calls attach, oldest first: each with the \<^verbatim>\<open>echo\<close> it waits for and the
  promise it settles. \<open>sent\<close> is what went through \<^verbatim>\<open>ws.send\<close>, oldest first.\<close>

record 'p socket =
  dispatching :: bool
  handlers :: "(string \<times> nat) list"
  sent :: "'p request list"

text \<open>The server: the registry, the sockets in the order of \<^verbatim>\<open>Array.from(wss.clients)\<close>,
  the promises created so far, and the calls of listeners made so far, oldest first.\<close>

record 'p server =
  listeners :: registry
  clients :: "'p socket list"
  promises :: "promise list"
  invoked :: "(callback \<times> json) list"

text \<open>One \<^verbatim>\<open>for (const listener of ...) listener(event)\<close> loop: a listener that throws ends
  it, and the exception leaves the loop.\<close>

fun call_listeners ::
  "behaviour \<Rightarrow> callback list \<Rightarrow> json \<Rightarrow> 'p server \<Rightarrow> js_error option \<times> 'p server" where
  "call_listeners beh [] event s = (None, s)"
| "call_listeners beh (listener # rest) event s =
     (let s1 = s\<lparr>invoked := invoked s @ [(listener, event)]\<rparr>
      in (case beh listener event of
            Some e \<Rightarrow> (Some e, s1)
          | None \<Rightarrow> call_listeners beh rest event s1))"

text \<open>\<^verbatim>\<open>this.listeners.get(key) || []\<close>.\<close>

definition listeners_for :: "registry \<Rightarrow> string \<Rightarrow> callback list" where
  "listeners_for reg key = (case reg key of None \<Rightarrow> [] | Some ls \<Rightarrow> ls)"

text \<open>The dispatching listener of \<^verbatim>\<open>init\<close> (the function given to
  \<^verbatim>\<open>ws.on('message', ...)\<close>). The result says whether it returned or threw. The call of
  the logger is left out: it does nothing to the server.\<close>

definition message_listener ::
  "behaviour \<Rightarrow> frame \<Rightarrow> 'p server \<Rightarrow> js_error option \<times> 'p server" where
  "message_listener beh data s =
     (case JSON_parse data of
        Inl e \<Rightarrow> (Some e, s)
      | Inr event \<Rightarrow>
     (case call_listeners beh (listeners_for (listeners s) ''*'') event s of
        (Some e, s1) \<Rightarrow> (Some e, s1)
      | (None, s1) \<Rightarrow>
     (case event_type event of
        Inl e \<Rightarrow> (Some e, s1)
      | Inr type \<Rightarrow> call_listeners beh (listeners_for (listeners s1) type) event s1)))"

section \<open>Calls\<close>

text \<open>\<^verbatim>\<open>Date.now().toString()\<close>: the clock's reading in milliseconds, a natural number,
  written in decimal digits.\<close>

definition digit :: "nat \<Rightarrow> char" where
  "digit d = ''0123456789'' ! d"

fun toString :: "nat \<Rightarrow> string" where
  "toString n = (if n < 10 then [digit n] else toString (n div 10) @ [digit (n mod 10)])"

declare toString.simps [simp del]

text \<open>\<^verbatim>\<open>resolve\<close> and \<^verbatim>\<open>reject\<close> settle a promise that is still pending and do nothing
  to one that is settled.\<close>

definition settle :: "nat \<Rightarrow> promise \<Rightarrow> 'p server \<Rightarrow> 'p server" where
  "settle p outcome s =
     (if p < length (promises s) \<and> promises s ! p = Pending
      then s\<lparr>promises := (promises s)[p := outcome]\<rparr> else s)"

text \<open>\<^verbatim>\<open>callApi\<close>, with the clock's reading as an argument. The promise it returns is the
  index of a new entry of \<open>promises\<close>. The executor of the promise runs at once: with no
  client it rejects; otherwise it attaches the handler to the first client and sends the
  payload to it. The sockets of \<open>clients\<close> are taken to be open, so \<^verbatim>\<open>ws.send\<close> returns.\<close>

definition callApi :: "nat \<Rightarrow> string \<Rightarrow> 'p \<Rightarrow> 'p server \<Rightarrow> nat \<times> 'p server" where
  "callApi now act ps s =
     (let tok = toString now;
          payload = \<lparr>action = act, params = ps, echo = tok\<rparr>;
          p = length (promises s)
      in (case clients s of
            [] \<Rightarrow>
              (p, s\<lparr>promises := promises s @ [Rejected (Error ''No WebSocket clients connected'')]\<rparr>)
          | ws # others \<Rightarrow>
              (p, s\<lparr>promises := promises s @ [Pending],
                     clients := ws\<lparr>handlers := handlers ws @ [(tok, p)],
                                    sent := sent ws @ [payload]\<rparr> # others\<rparr>)))"

text \<open>\<^verbatim>\<open>ws.off('message', handler)\<close> on the socket at index \<open>i\<close>: the emitter takes out the
  instance of the handler that was attached last.\<close>

definition remove_last :: "'a \<Rightarrow> 'a list \<Rightarrow> 'a list" where
  "remove_last x xs = rev (remove1 x (rev xs))"

definition ws_off :: "nat \<Rightarrow> string \<times> nat \<Rightarrow> 'p server \<Rightarrow> 'p server" where
  "ws_off i h s =
     (if i < length (clients s)
      then s\<lparr>clients := (clients s)[i := (clients s ! i)\<lparr>handlers := remove_last h (handlers (clients s ! i))\<rparr>]\<rparr>
      else s)"

text \<open>The handler that \<^verbatim>\<open>callApi\<close> attaches, for the call with token \<open>tok\<close> and promise
  \<open>p\<close> on the socket at index \<open>i\<close>.\<close>

definition handler ::
  "nat \<Rightarrow> string \<Rightarrow> nat \<Rightarrow> frame \<Rightarrow> 'p server \<Rightarrow> js_error option \<times> 'p server" where
  "handler i tok p data s =
     (case JSON_parse data of
        Inl e \<Rightarrow> (Some e, s)
      | Inr response \<Rightarrow>
     (case get_property response ''echo'' of
        Inl e \<Rightarrow> (Some e, s)
      | Inr v \<Rightarrow>
          if v = Some (JStr tok) then
            (let s1 = ws_off i (tok, p) s in
             case get_property response ''status'' of
               Inl e \<Rightarrow> (Some e, s1)
             | Inr status \<Rightarrow>
                 if status = Some (JStr ''ok'') then
                   (case get_property response ''data'' of
                      Inl e \<Rightarrow> (Some e, s1)
                    | Inr d \<Rightarrow> (None, settle p (Resolved d) s1))
                 else
                   (case get_property response ''message'' of
                      Inl e \<Rightarrow> (Some e, s1)
                    | Inr m \<Rightarrow>
                   (case to_string_opt (if truthy m then m else Some (JStr ''API call failed'')) of
                      Inl e \<Rightarrow> (Some e, s1)
                    | Inr text \<Rightarrow> (None, settle p (Rejected (Error text)) s1))))
          else (None, s)))"

section \<open>A frame arrives\<close>

text \<open>The emitter calls the listeners of \<^verbatim>\<open>message\<close> that are attached when the frame
  arrives, in the order of attachment; a listener that throws ends the emit, and the
  ones after it are not called.\<close>

fun emit_handlers ::
  "nat \<Rightarrow> frame \<Rightarrow> (string \<times> nat) list \<Rightarrow> 'p server \<Rightarrow> js_error option \<times> 'p server" where
  "emit_handlers i data [] s = (None, s)"
| "emit_handlers i data ((tok, p) # rest) s =
     (case handler i tok p data s of
        (Some e, s1) \<Rightarrow> (Some e, s1)
      | (None, s1) \<Rightarrow> emit_handlers i data rest s1)"

definition emit_message ::
  "behaviour \<Rightarrow> nat \<Rightarrow> frame \<Rightarrow> 'p server \<Rightarrow> js_error option \<times> 'p server" where
  "emit_message beh i data s =
     (if i < length (clients s) then
        (let ws = clients s ! i in
         case (if dispatching ws then message_listener beh data s else (None, s)) of
           (Some e, s1) \<Rightarrow> (Some e, s1)
         | (None, s1) \<Rightarrow> emit_handlers i data (handlers ws) s1)
      else (None, s))"

section \<open>Example states\<close>

text \<open>A socket right after \<^verbatim>\<open>init\<close> accepted it, and a server whose only client is that
  socket, with a given registry.\<close>

definition established :: "unit socket" where
  "established = \<lparr>dispatching = True, handlers = [], sent = []\<rparr>"

definition connected :: "registry \<Rightarrow> unit server" where
  "connected reg = \<lparr>listeners = reg, clients = [established], promises = [], invoked = []\<rparr>"

definition unconnected :: "unit server" where
  "unconnected = \<lparr>listeners = Map.empty, clients = [], promises = [], invoked = []\<rparr>"

text \<open>Listeners that always return.\<close>

definition quiet :: behaviour where
  "quiet = (\<lambda>listener event. None)"

text \<open>Events and registries used as examples.\<close>

definition group_message :: json where
  "group_message = JObj [(''post_type'', JStr ''message''), (''message_type'', JStr ''group''),
                         (''raw_message'', JStr ''hello'')]"



definition twice_registered :: registry where
  "twice_registered =
     on (Listener_only 2) (on (With_type ''message.group'' 2) (on (With_type ''message.group'' 3) Map.empty))"



text \<open>Responses of the peer: the data of a login, a response with status \<open>''ok''\<close>, a
  response with another status and a message.\<close>

definition login_info :: json where
  "login_info = JObj [(''user_id'', JNum ''10001''), (''nickname'', JStr ''bot'')]"

definition ok_response :: "string \<Rightarrow> json \<Rightarrow> (string \<times> json) list" where
  "ok_response tok d = [(''echo'', JStr tok), (''status'', JStr ''ok''), (''data'', d)]"

definition failed_response :: "string \<Rightarrow> string \<Rightarrow> (string \<times> json) list" where
  "failed_response tok m = [(''echo'', JStr tok), (''status'', JStr ''failed''), (''message'', JStr m)]"


text \<open>What a call's handler settles its promise with, when the response (an object with
  these properties) carries the call's token: the branch on \<^verbatim>\<open>response.status\<close>.\<close>

definition settles :: "(string \<times> json) list \<Rightarrow> promise \<Rightarrow> bool" where
  "settles props out \<longleftrightarrow>
     (if map_of props ''status'' = Some (JStr ''ok'')
      then out = Resolved (map_of props ''data'')
      else (case to_string_opt (if truthy (map_of props ''message'') then map_of props ''message''
                                else Some (JStr ''API call failed'')) of
              Inl e \<Rightarrow> False
            | Inr text \<Rightarrow> out = Rejected (Error text)))"

section \<open>The registry\<close>

lemma listeners_for_on:
  "listeners_for (on (With_type t l) reg) key =
     (if key = t then listeners_for reg key @ [l] else listeners_for reg key)"
  "listeners_for (on (Listener_only l) reg) key =
     (if key = ''*'' then listeners_for reg key @ [l] else listeners_for reg key)"
  by (auto simp: listeners_for_def on_def Let_def split: option.splits)

lemma listeners_for_empty: "listeners_for Map.empty key = []"
  by (simp add: listeners_for_def)


lemma remove1_once: "count_list ls l \<le> 1 \<Longrightarrow> l \<notin> set (remove1 l ls)"
  by (induction ls) (auto simp: count_list_0_iff split: if_splits)

lemma listeners_for_off: "listeners_for (off l reg) key = remove1 l (listeners_for reg key)"
  by (auto simp: listeners_for_def off_def Let_def remove1_idem split: option.splits)

section \<open>The listener loops\<close>

lemma call_listeners_listeners:
  "listeners (snd (call_listeners beh ls ev s)) = listeners s"
  by (induction ls arbitrary: s) (auto simp: Let_def split: option.splits)

lemma call_listeners_append:
  "call_listeners beh (xs @ ys) ev s =
     (case call_listeners beh xs ev s of
        (Some e, s1) \<Rightarrow> (Some e, s1)
      | (None, s1) \<Rightarrow> call_listeners beh ys ev s1)"
  by (induction xs arbitrary: s) (auto simp: Let_def split: option.splits)




lemma message_listener_all:
  "event_type ev = Inr k \<Longrightarrow>
   message_listener beh (Parsed ev) s =
     call_listeners beh (listeners_for (listeners s) ''*'' @ listeners_for (listeners s) k) ev s"
  using call_listeners_listeners [of beh "listeners_for (listeners s) ''*''" ev s]
  by (auto simp: message_listener_def call_listeners_append split: prod.splits option.splits)




section \<open>The call handlers\<close>


lemma handler_match:
  "map_of props ''echo'' = Some (JStr tok) \<Longrightarrow> settles props out \<Longrightarrow>
   handler i tok p (Parsed (JObj props)) s = (None, settle p out (ws_off i (tok, p) s))"
  by (auto simp: handler_def settles_def Let_def split: if_splits sum.splits)

lemma handler_other:
  "map_of props ''echo'' \<noteq> Some (JStr tok) \<Longrightarrow>
   handler i tok p (Parsed (JObj props)) s = (None, s)"
  by (simp add: handler_def)

lemma ws_off_fields [simp]:
  "listeners (ws_off i h s) = listeners s"
  "promises (ws_off i h s) = promises s"
  "invoked (ws_off i h s) = invoked s"
  "length (clients (ws_off i h s)) = length (clients s)"
  by (simp_all add: ws_off_def)

lemma settle_fields [simp]:
  "listeners (settle p out s) = listeners s"
  "clients (settle p out s) = clients s"
  "invoked (settle p out s) = invoked s"
  "length (promises (settle p out s)) = length (promises s)"
  by (simp_all add: settle_def)




lemma emit_handlers_returns:
  "settles props out \<Longrightarrow> fst (emit_handlers i (Parsed (JObj props)) hs s) = None"
proof (induction hs arbitrary: s)
  case Nil
  then show ?case by simp
next
  case (Cons h hs)
  obtain tok p where h: "h = (tok, p)" by (cases h)
  show ?case
  proof (cases "map_of props ''echo'' = Some (JStr tok)")
    case True
    with Cons h show ?thesis by (simp add: handler_match)
  next
    case False
    with Cons h show ?thesis by (simp add: handler_other)
  qed
qed




lemma call_listeners_frame:
  "\<exists>calls. snd (call_listeners beh ls ev s) = s\<lparr>invoked := invoked s @ calls\<rparr> \<and>
     fst ` set calls \<subseteq> set ls"
proof (induction ls arbitrary: s)
  case Nil
  show ?case by (rule exI [of _ "[]"]) simp
next
  case (Cons l ls)
  let ?s1 = "s\<lparr>invoked := invoked s @ [(l, ev)]\<rparr>"
  show ?case
  proof (cases "beh l ev")
    case None
    from Cons [of ?s1] obtain calls where
      "snd (call_listeners beh ls ev ?s1) = ?s1\<lparr>invoked := invoked ?s1 @ calls\<rparr>"
      "fst ` set calls \<subseteq> set ls" by blast
    with None show ?thesis
      by (intro exI [of _ "(l, ev) # calls"]) (auto simp: Let_def)
  next
    case (Some e)
    then show ?thesis
      by (intro exI [of _ "[(l, ev)]"]) (simp add: Let_def)
  qed
qed

lemma message_listener_frame:
  "\<exists>calls. snd (message_listener beh data s) = s\<lparr>invoked := invoked s @ calls\<rparr> \<and>
     fst ` set calls \<subseteq>
       (\<Union>key. set (listeners_for (listeners s) key))"
proof (cases data)
  case Not_JSON
  then show ?thesis
    by (intro exI [of _ "[]"]) (simp add: message_listener_def)
next
  case (Parsed ev)
  show ?thesis
  proof (cases "event_type ev")
    case (Inr k)
    from call_listeners_frame [of beh "listeners_for (listeners s) ''*'' @ listeners_for (listeners s) k" ev s]
    obtain calls where
      "snd (call_listeners beh (listeners_for (listeners s) ''*'' @ listeners_for (listeners s) k) ev s)
         = s\<lparr>invoked := invoked s @ calls\<rparr>"
      "fst ` set calls \<subseteq> set (listeners_for (listeners s) ''*'' @ listeners_for (listeners s) k)"
      by blast
    then show ?thesis
      unfolding Parsed message_listener_all [OF Inr]
      by (intro exI [of _ calls]) auto
  next
    case (Inl e)
    from call_listeners_frame [of beh "listeners_for (listeners s) ''*''" ev s]
    obtain calls where c: "snd (call_listeners beh (listeners_for (listeners s) ''*'') ev s) = s\<lparr>invoked := invoked s @ calls\<rparr>"
      "fst ` set calls \<subseteq> set (listeners_for (listeners s) ''*'')" by blast
    have "snd (message_listener beh data s) = snd (call_listeners beh (listeners_for (listeners s) ''*'') ev s)"
      using Inl Parsed by (auto simp: message_listener_def split: prod.splits option.splits)
    with c show ?thesis
      by (intro exI [of _ calls]) auto
  qed
qed









section \<open>Tokens\<close>




text \<open>The definitions that evaluating the model on a concrete input unfolds.\<close>

lemmas run_defs =
  callApi_def connected_def established_def Let_def toString.simps digit_def emit_message_def message_listener_def
  handler_def ws_off_def settle_def remove_last_def event_type_def getEventDetail_def
  listeners_for_on listeners_for_empty quiet_def ok_response_def failed_response_def

section \<open>Claims about the classification\<close>

text \<open>Claim C10. When an event object carries several of the four discriminator fields,
  \<open>getEventDetail\<close> returns the value of the first one it carries in the order
  \<^verbatim>\<open>message_type\<close>, \<^verbatim>\<open>request_type\<close>, \<^verbatim>\<open>notice_type\<close>, \<^verbatim>\<open>meta_event_type\<close>, whatever the
  order of the fields in the object and whichever later ones are present too.\<close>

theorem getEventDetail_precedence:
  assumes "find (\<lambda>name. map_of props name \<noteq> None)
             [''message_type'', ''request_type'', ''notice_type'', ''meta_event_type''] = Some name"
  shows "getEventDetail (JObj props) = Inr (map_of props name)"
  using assms by (auto simp: getEventDetail_def split: if_splits)

text \<open>An event with three of the fields, the later ones written first: the request type
  is chosen.\<close>

theorem getEventDetail_precedence_witness:
  "find (\<lambda>name. map_of [(''meta_event_type'', JStr ''heartbeat''), (''notice_type'', JStr ''notify''),
                         (''request_type'', JStr ''friend'')] name \<noteq> None)
     [''message_type'', ''request_type'', ''notice_type'', ''meta_event_type''] = Some ''request_type''
   \<and> getEventDetail (JObj [(''meta_event_type'', JStr ''heartbeat''), (''notice_type'', JStr ''notify''),
                         (''request_type'', JStr ''friend'')]) = Inr (Some (JStr ''friend''))"
proof -
  have first: "find (\<lambda>name. map_of [(''meta_event_type'', JStr ''heartbeat''), (''notice_type'', JStr ''notify''),
                         (''request_type'', JStr ''friend'')] name \<noteq> None)
     [''message_type'', ''request_type'', ''notice_type'', ''meta_event_type''] = Some ''request_type''"
    by simp
  from getEventDetail_precedence [OF first] first show ?thesis by simp
qed

section \<open>Claims about calls without a connection and about malformed frames\<close>

text \<open>Claim C4. A call issued while \<open>clients\<close> is empty returns a promise that is already
  rejected with the error \<open>''No WebSocket clients connected''\<close>; nothing else of the server
  changes: no handler is attached and nothing is sent, there being still no socket.\<close>

theorem callApi_no_connection:
  assumes "clients s = []"
  shows "callApi now act ps s =
           (length (promises s),
            s\<lparr>promises := promises s @ [Rejected (Error ''No WebSocket clients connected'')]\<rparr>)
         \<and> promises (snd (callApi now act ps s)) ! fst (callApi now act ps s)
             = Rejected (Error ''No WebSocket clients connected'')
         \<and> clients (snd (callApi now act ps s)) = []"
  using assms by (simp add: callApi_def)

theorem callApi_no_connection_witness:
  "clients unconnected = []
   \<and> promises (snd (callApi 1700000000000 ''get_status'' () unconnected))
       ! fst (callApi 1700000000000 ''get_status'' () unconnected)
       = Rejected (Error ''No WebSocket clients connected'')
   \<and> clients (snd (callApi 1700000000000 ''get_status'' () unconnected)) = []"
proof -
  have none: "clients unconnected = []" by (simp add: unconnected_def)
  from callApi_no_connection [OF none, of 1700000000000 "''get_status''" "()"] none
  show ?thesis by simp
qed

text \<open>Claim C9, as stated, fails: \<^verbatim>\<open>JSON.parse\<close> is called with no \<^verbatim>\<open>try\<close> around it. On a
  freshly accepted connection a frame that is not JSON makes the dispatching listener
  throw a \<^verbatim>\<open>SyntaxError\<close>.\<close>

theorem malformed_frame_counterexample:
  "emit_message quiet 0 Not_JSON (connected Map.empty) = (Some SyntaxError, connected Map.empty)"
  by (simp add: emit_message_def message_listener_def connected_def established_def)

text \<open>Claim C9, amended. A frame that is not valid JSON is not logged and dropped: the first
  listener of the socket's \<^verbatim>\<open>message\<close> event (the dispatching listener, or the oldest call
  handler on a socket that has none) throws the \<^verbatim>\<open>SyntaxError\<close> of \<^verbatim>\<open>JSON.parse\<close> out of
  the emit. Before that nothing has happened: no listener was called, no call handler
  ran, and the registry, the sockets and the promises are as they were.\<close>

theorem malformed_frame_throws:
  assumes "i < length (clients s)"
    and "dispatching (clients s ! i) \<or> handlers (clients s ! i) \<noteq> []"
  shows "emit_message beh i Not_JSON s = (Some SyntaxError, s)"
proof (cases "dispatching (clients s ! i)")
  case True
  with assms(1) show ?thesis
    by (simp add: emit_message_def message_listener_def)
next
  case False
  with assms(2) obtain tok p rest where "handlers (clients s ! i) = (tok, p) # rest"
    by (cases "handlers (clients s ! i)") auto
  with False assms(1) show ?thesis
    by (simp add: emit_message_def handler_def)
qed

theorem malformed_frame_throws_witness:
  "0 < length (clients (snd (callApi 5 ''get_status'' () (connected Map.empty))))
   \<and> dispatching (clients (snd (callApi 5 ''get_status'' () (connected Map.empty))) ! 0)
   \<and> emit_message quiet 0 Not_JSON (snd (callApi 5 ''get_status'' () (connected Map.empty)))
       = (Some SyntaxError, snd (callApi 5 ''get_status'' () (connected Map.empty)))"
proof -
  have len: "0 < length (clients (snd (callApi 5 ''get_status'' () (connected Map.empty))))"
    and disp: "dispatching (clients (snd (callApi 5 ''get_status'' () (connected Map.empty))) ! 0)"
    by (simp_all add: callApi_def connected_def established_def Let_def)
  from malformed_frame_throws [OF len disjI1 [OF disp]] len disp show ?thesis by blast
qed

section \<open>Claims about dispatch\<close>






section \<open>Claims about unregistering\<close>

text \<open>Claim C8, as stated, fails: \<^verbatim>\<open>splice(index, 1)\<close> takes out one occurrence. A listener
  registered twice under \<open>''*''\<close> is still there after one \<open>off\<close>, and the next message
  calls it.\<close>

theorem off_counterexample:
  "listeners_for (off 1 (on (Listener_only 1) (on (Listener_only 1) Map.empty))) ''*'' = [1]
   \<and> message_listener quiet (Parsed group_message)
        (connected (off 1 (on (Listener_only 1) (on (Listener_only 1) Map.empty))))
     = (None, (connected (off 1 (on (Listener_only 1) (on (Listener_only 1) Map.empty))))
                \<lparr>invoked := [(1, group_message)]\<rparr>)"
proof -
  have ls: "listeners_for (off 1 (on (Listener_only 1) (on (Listener_only 1) Map.empty))) ''*'' = [1]"
    and "listeners_for (off 1 (on (Listener_only 1) (on (Listener_only 1) Map.empty))) ''message.group'' = []"
    by (simp_all add: listeners_for_off listeners_for_on listeners_for_empty)
  moreover have "event_type group_message = Inr ''message.group''"
    by (simp add: group_message_def event_type_def getEventDetail_def)
  ultimately show ?thesis
    by (simp add: message_listener_all connected_def quiet_def)
qed

text \<open>Claim C8, amended. A single \<open>off\<close> removes the first occurrence of the listener from
  the array of every key; it deletes a key whose array becomes empty by that, and leaves
  alone the keys whose arrays do not hold the listener. When the listener was registered
  at most once under each key, no dispatch of a message calls it afterwards.\<close>

theorem off_removes_first_occurrence:
  "listeners_for (off l reg) key = remove1 l (listeners_for reg key)
   \<and> (reg key = Some ls \<and> l \<in> set ls \<and> remove1 l ls = [] \<longrightarrow> off l reg key = None)
   \<and> (reg key = Some ls \<and> l \<notin> set ls \<longrightarrow> off l reg key = Some ls)
   \<and> ((\<forall>key. count_list (listeners_for reg key) l \<le> 1) \<and> listeners s = off l reg \<longrightarrow>
        (\<exists>calls. snd (message_listener beh data s) = s\<lparr>invoked := invoked s @ calls\<rparr>
           \<and> l \<notin> fst ` set calls))"
proof -
  have "\<exists>calls. snd (message_listener beh data s) = s\<lparr>invoked := invoked s @ calls\<rparr>
           \<and> l \<notin> fst ` set calls"
    if once: "\<forall>key. count_list (listeners_for reg key) l \<le> 1" and s: "listeners s = off l reg"
  proof -
    from message_listener_frame [of beh data s] obtain calls where
      calls: "snd (message_listener beh data s) = s\<lparr>invoked := invoked s @ calls\<rparr>"
        "fst ` set calls \<subseteq> (\<Union>key. set (listeners_for (listeners s) key))"
      by blast
    have "l \<notin> set (listeners_for (listeners s) key)" for key
      using once s by (simp add: listeners_for_off remove1_once)
    with calls(2) have "l \<notin> fst ` set calls" by blast
    with calls(1) show ?thesis by blast
  qed
  then show ?thesis
    by (auto simp: listeners_for_off) (simp_all add: off_def)
qed

text \<open>A listener registered once under \<open>''*''\<close> and once under \<open>''message.group''\<close>, after
  another one.\<close>

theorem off_removes_first_occurrence_witness:
  "twice_registered ''*'' = Some [2] \<and> 2 \<in> set [2::nat] \<and> remove1 2 [2::nat] = []
   \<and> (\<forall>key. count_list (listeners_for twice_registered key) 2 \<le> 1)
   \<and> listeners (connected (off 2 twice_registered)) = off 2 twice_registered
   \<and> off 2 twice_registered ''*'' = None
   \<and> listeners_for (off 2 twice_registered) ''message.group'' = [3]
   \<and> (\<exists>calls. snd (message_listener quiet (Parsed group_message) (connected (off 2 twice_registered)))
          = (connected (off 2 twice_registered))\<lparr>invoked := invoked (connected (off 2 twice_registered)) @ calls\<rparr>
        \<and> 2 \<notin> fst ` set calls)"
proof -
  have a: "twice_registered ''*'' = Some [2]"
    by (simp add: twice_registered_def on_def)
  have b: "\<forall>key. count_list (listeners_for twice_registered key) 2 \<le> 1"
    by (simp add: twice_registered_def listeners_for_on listeners_for_empty)
  have c: "listeners (connected (off 2 twice_registered)) = off 2 twice_registered"
    by (simp add: connected_def)
  have d: "listeners_for twice_registered ''message.group'' = [3, 2]"
    by (simp add: twice_registered_def listeners_for_on listeners_for_empty)
  from off_removes_first_occurrence [of 2 twice_registered "''*''" "[2]"
      "connected (off 2 twice_registered)" quiet "Parsed group_message"]
    off_removes_first_occurrence [of 2 twice_registered "''message.group''" "[2]"
      "connected (off 2 twice_registered)" quiet "Parsed group_message"]
    a b c d
  show ?thesis by simp
qed

section \<open>Claims about responses\<close>







section \<open>Claims about tokens\<close>

text \<open>Claim C3 does not hold of the code: the token is the clock's reading in milliseconds.
  Two calls issued at the same reading while the connection is up are sent with the same
  \<^verbatim>\<open>echo\<close>, both pending; one response with that token then resolves both calls with the
  same data.\<close>

theorem same_millisecond_same_echo:
  "map echo (sent (clients (snd (callApi 1700000000000 ''get_status'' ()
       (snd (callApi 1700000000000 ''get_login_info'' () (connected Map.empty))))) ! 0))
     = [''1700000000000'', ''1700000000000'']
   \<and> promises (snd (callApi 1700000000000 ''get_status'' ()
       (snd (callApi 1700000000000 ''get_login_info'' () (connected Map.empty)))))
     = [Pending, Pending]
   \<and> promises (snd (emit_message quiet 0 (Parsed (JObj (ok_response ''1700000000000'' login_info)))
       (snd (callApi 1700000000000 ''get_status'' ()
         (snd (callApi 1700000000000 ''get_login_info'' () (connected Map.empty)))))))
     = [Resolved (Some login_info), Resolved (Some login_info)]"
  by (simp add: run_defs)



end
